theory Spec2Isabelle
  imports Main "HOL-Library.Word"
begin

unbundle bit_operations_syntax

section \<open>TinyG2 switch handling (switch.cpp): data model\<close>

text \<open>
  The development embeds \<^verbatim>\<open>src/TinyG2/switch.cpp\<close>: \<^verbatim>\<open>switch_init\<close>,
  \<^verbatim>\<open>poll_switches\<close>, \<^verbatim>\<open>read_switch\<close>, \<^verbatim>\<open>_do_feedhold\<close>, \<^verbatim>\<open>_no_action\<close> and
  \<^verbatim>\<open>get_switch_mode\<close>. The headers \<^verbatim>\<open>switch.h\<close>, \<^verbatim>\<open>tinyg2.h\<close>, \<^verbatim>\<open>hardware.h\<close> and
  \<^verbatim>\<open>canonical_machine.h\<close> are not among the sources, so the enumerators, macros and
  field types they declare are given below, each marked as such.
\<close>

subsection \<open>Constants of the missing headers\<close>

text \<open>
  Modelled from the spec: the switch states of \<^verbatim>\<open>switch.h\<close>. The comment of
  \<^verbatim>\<open>read_switch\<close> fixes them: "0 = open for both NO and NC switches, 1 = closed for
  both NO and NC switches"; \<^verbatim>\<open>switch_init\<close> stores \<^verbatim>\<open>false\<close> for open.
\<close>

definition SW_OPEN :: "8 word" where
  "SW_OPEN = 0"

definition SW_CLOSED :: "8 word" where
  "SW_CLOSED = 1"

text \<open>
  Modelled from the spec: the wiring types of \<^verbatim>\<open>switch.h\<close> (enum swType), 0 for
  normally open and 1 for normally closed. This is the numbering under which line 129
  does what the comment of \<^verbatim>\<open>read_switch\<close> and the polarity property of the spec
  say (a pin value of 1 is physically open; a normally-open switch that reads 0 is
  logically closed). Lemma \<open>polarity_fixes_encoding\<close> below shows that no other
  numbering does.
\<close>

definition SW_NORMALLY_OPEN :: "8 word" where
  "SW_NORMALLY_OPEN = 0"

definition SW_NORMALLY_CLOSED :: "8 word" where
  "SW_NORMALLY_CLOSED = 1"

text \<open>
  Modelled from the spec: the switch modes of \<^verbatim>\<open>switch.h\<close>, bit flags in a byte:
  disabled is 0 (no bit set), homing is bit 0, limit is bit 1. The theorems below use
  the names only; the numbers matter at concrete inputs.
\<close>

definition SW_MODE_DISABLED :: "8 word" where
  "SW_MODE_DISABLED = 0"

definition SW_HOMING_BIT :: "8 word" where
  "SW_HOMING_BIT = 1"

definition SW_LIMIT_BIT :: "8 word" where
  "SW_LIMIT_BIT = 2"

text \<open>
  Modelled from the spec: the default lockout quantum \<^verbatim>\<open>SW_LOCKOUT_TICKS\<close> of
  \<^verbatim>\<open>switch.h\<close> ("a fixed default quantum"). No theorem depends on the number.
\<close>

definition SW_LOCKOUT_TICKS :: "16 word" where
  "SW_LOCKOUT_TICKS = 100"

text \<open>
  Modelled from the spec: the indices \<^verbatim>\<open>poll_switches\<close> uses (the six axes X, Y, Z,
  A, B, C of \<^verbatim>\<open>tinyg2.h\<close> and the two positions MIN and MAX of \<^verbatim>\<open>switch.h\<close>) and the
  size of the switch table, \<^verbatim>\<open>SW_PAIRS\<close> axes by \<^verbatim>\<open>SW_POSITIONS\<close> positions ("axis x
  position, e.g. min/max per axis"). Neither the sources nor the spec give the size.
  \<^verbatim>\<open>poll_switches\<close> indexes the table up to \<^verbatim>\<open>sw.s[AXIS_C][SW_MAX]\<close>, so the table
  has at least six axes and two positions; the model takes the smallest table in which
  every access of the code is in bounds. The theorem on \<^verbatim>\<open>poll_switches\<close> says what
  the poll covers for a table of any size.
\<close>

definition AXIS_X :: nat where "AXIS_X = 0"
definition AXIS_C :: nat where "AXIS_C = 5"

definition SW_MIN :: nat where "SW_MIN = 0"
definition SW_MAX :: nat where "SW_MAX = 1"

definition SW_PAIRS :: nat where "SW_PAIRS = 6"
definition SW_POSITIONS :: nat where "SW_POSITIONS = 2"

subsection \<open>Enumerations\<close>

text \<open>The edge classification (enum swEdge); the code only assigns and compares it.\<close>

datatype swEdge = SW_NO_EDGE | SW_LEADING | SW_TRAILING

text \<open>
  Modelled from the spec: the cycle state of the canonical machine
  (\<^verbatim>\<open>canonical_machine.h\<close>). The code only tests it for equality with
  \<^verbatim>\<open>CYCLE_HOMING\<close>; \<open>CYCLE_OTHER k\<close> stands for any other enumerator.
\<close>

datatype cmCycleState = CYCLE_HOMING | CYCLE_OTHER nat

text \<open>
  The functions a callback slot can point to. A slot holds a function pointer
  \<^verbatim>\<open>void (*)(switch_t *)\<close>; the file defines two functions of that type,
  \<^verbatim>\<open>_no_action\<close> and \<^verbatim>\<open>_do_feedhold\<close>, and these are the values of the model's
  slots.
\<close>

datatype sw_callback = NO_ACTION | DO_FEEDHOLD

text \<open>The four callback slots of a switch, to name a call in the trace.\<close>

datatype sw_slot = WHEN_OPEN | WHEN_CLOSED | ON_LEADING | ON_TRAILING

subsection \<open>Records\<close>

text \<open>
  Modelled from the spec: one switch (\<^verbatim>\<open>switch_t\<close>, declared in \<^verbatim>\<open>switch.h\<close>), with
  the fields the code reads and writes. The byte fields are compared with and assigned
  from \<^verbatim>\<open>uint8_t\<close> values in the code. The tick fields are unsigned machine
  integers, a 16-bit lockout duration and a 32-bit timeout beside the 32-bit tick
  counter, so that \<^verbatim>\<open>GetTickCount() + s->debounce_ticks\<close> wraps.
\<close>

record switch_t =
  type :: "8 word"
  mode :: "8 word"
  state :: "8 word"
  edge :: swEdge
  debounce_ticks :: "16 word"
  debounce_timeout :: "32 word"
  when_open :: sw_callback
  when_closed :: sw_callback
  on_leading :: sw_callback
  on_trailing :: sw_callback

text \<open>
  What the callbacks and \<^verbatim>\<open>read_switch\<close> reach outside the switch: the tick counter
  read by \<^verbatim>\<open>GetTickCount()\<close>, the canonical machine \<^verbatim>\<open>cm\<close> (cycle state and the two
  request flags) and the indicator LED. The field \<open>calls\<close> is a trace: every call
  through a callback slot appends the slot and the function called, so that "which
  callback ran, and how often" can be stated. The code has no such field.
\<close>

record machine =
  tick_count :: "32 word"
  cycle_state :: cmCycleState
  request_feedhold :: bool
  limit_flag :: bool
  indicator_led :: bool
  calls :: "(sw_slot \<times> sw_callback) list"

text \<open>The switch array \<^verbatim>\<open>sw\<close> (\<^verbatim>\<open>switches_t\<close>): the global type and the table.\<close>

record switches_t =
  sw_type :: "8 word"
  sw_s :: "nat \<Rightarrow> nat \<Rightarrow> switch_t"

section \<open>The functions of switch.cpp\<close>

subsection \<open>Callbacks\<close>

definition no_action :: "switch_t \<Rightarrow> machine \<Rightarrow> switch_t \<times> machine" where
  "no_action s m = (s, m)"

definition do_feedhold :: "switch_t \<Rightarrow> machine \<Rightarrow> switch_t \<times> machine" where
  "do_feedhold s m =
     (let m1 = m\<lparr>indicator_led := \<not> indicator_led m\<rparr> in
      if cycle_state m1 = CYCLE_HOMING then (s, m1\<lparr>request_feedhold := True\<rparr>)
      else if mode s AND SW_LIMIT_BIT \<noteq> 0 then (s, m1\<lparr>limit_flag := True\<rparr>)
      else (s, m1))"

text \<open>A call through a function pointer: record it, then run the function.\<close>

fun call_function :: "sw_callback \<Rightarrow> switch_t \<Rightarrow> machine \<Rightarrow> switch_t \<times> machine" where
  "call_function NO_ACTION s m = no_action s m"
| "call_function DO_FEEDHOLD s m = do_feedhold s m"

definition invoke :: "sw_slot \<Rightarrow> sw_callback \<Rightarrow> switch_t \<Rightarrow> machine \<Rightarrow> switch_t \<times> machine" where
  "invoke slot f s m = call_function f s (m\<lparr>calls := calls m @ [(slot, f)]\<rparr>)"

subsection \<open>read_switch\<close>

text \<open>
  The tick counter is read from the machine. \<^verbatim>\<open>read_switch\<close> calls it on lines 138
  and 142; both calls read the same tick here.
\<close>

definition GetTickCount :: "machine \<Rightarrow> 32 word" where
  "GetTickCount m = tick_count m"

text \<open>Line 129: the pin sense corrected for the wiring type.\<close>

definition pin_sense_corrected :: "8 word \<Rightarrow> 8 word \<Rightarrow> 8 word" where
  "pin_sense_corrected pin_value ty = pin_value XOR (ty XOR 1)"

text \<open>
  The result is the returned byte (0 for \<^verbatim>\<open>false\<close>, 1 for \<^verbatim>\<open>true\<close>), the switch and
  the machine after the call. Each \<^verbatim>\<open>if\<close> of the code is one step here, in the code's
  order: the second test of a pair reads the switch as the first call left it.
\<close>

definition read_switch :: "switch_t \<Rightarrow> 8 word \<Rightarrow> machine \<Rightarrow> 8 word \<times> switch_t \<times> machine" where
  "read_switch s pin_value m =
     (if mode s = SW_MODE_DISABLED then (0, s, m)
      else
        let corrected = pin_sense_corrected pin_value (type s) in
        if corrected = state s then
          let (s1, m1) = (if state s = SW_OPEN then invoke WHEN_OPEN (when_open s) s m
                          else (s, m));
              (s2, m2) = (if state s1 = SW_CLOSED then invoke WHEN_CLOSED (when_closed s1) s1 m1
                          else (s1, m1))
          in (0, s2, m2)
        else if debounce_timeout s \<noteq> 0 \<and> debounce_timeout s > GetTickCount m then (0, s, m)
        else
          let s1 = s\<lparr>state := corrected\<rparr>;
              s2 = s1\<lparr>debounce_timeout := GetTickCount m + ucast (debounce_ticks s1)\<rparr>;
              s3 = s2\<lparr>edge := (if state s2 = SW_OPEN then SW_TRAILING else SW_LEADING)\<rparr>;
              (s4, m4) = (if edge s3 = SW_LEADING then invoke ON_LEADING (on_leading s3) s3 m
                          else (s3, m));
              (s5, m5) = (if edge s4 = SW_TRAILING then invoke ON_TRAILING (on_trailing s4) s4 m4
                          else (s4, m4))
          in (1, s5, m5))"

subsection \<open>get_switch_mode\<close>

text \<open>
  \<^verbatim>\<open>uint8_t get_switch_mode(uint8_t sw_num) { return (0);}\<close>. The switch array is a
  global the function could read, so it is an argument here.
\<close>

definition get_switch_mode :: "switches_t \<Rightarrow> 8 word \<Rightarrow> 8 word" where
  "get_switch_mode sw sw_num = 0"

subsection \<open>switch_init\<close>

text \<open>
  Lines 76 to 88, the body of the inner loop, on one switch. The field \<open>mode\<close> is
  not assigned: line 77 is commented out ("set from config").
\<close>

definition init_switch :: "8 word \<Rightarrow> switch_t \<Rightarrow> switch_t" where
  "init_switch global_type s =
     s\<lparr>type := global_type,
       state := 0,
       edge := SW_NO_EDGE,
       debounce_ticks := SW_LOCKOUT_TICKS,
       debounce_timeout := 0,
       when_open := NO_ACTION,
       when_closed := NO_ACTION,
       on_leading := DO_FEEDHOLD,
       on_trailing := NO_ACTION\<rparr>"

text \<open>A write through \<^verbatim>\<open>s = &sw.s[axis][position]\<close>.\<close>

definition update_switch :: "nat \<Rightarrow> nat \<Rightarrow> (switch_t \<Rightarrow> switch_t) \<Rightarrow> switches_t \<Rightarrow> switches_t" where
  "update_switch axis position f sw =
     sw\<lparr>sw_s := (sw_s sw)(axis := (sw_s sw axis)(position := f (sw_s sw axis position)))\<rparr>"

text \<open>The two nested loops, axis outside and position inside, both counting up from 0.\<close>

definition switch_init :: "switches_t \<Rightarrow> switches_t" where
  "switch_init sw =
     fold (\<lambda>axis.
       fold (\<lambda>position sw'. update_switch axis position (init_switch (sw_type sw')) sw')
         [0..<SW_POSITIONS])
       [0..<SW_PAIRS] sw"

subsection \<open>poll_switches\<close>



subsection \<open>Concrete inputs\<close>

text \<open>
  The switch of the scenario in the spec: normally open, a limit switch, a lockout of
  50 ticks, open, with the callbacks \<^verbatim>\<open>switch_init\<close> binds.
\<close>

definition example_switch :: switch_t where
  "example_switch =
     \<lparr>type = SW_NORMALLY_OPEN, mode = SW_LIMIT_BIT, state = SW_OPEN, edge = SW_NO_EDGE,
      debounce_ticks = 50, debounce_timeout = 0,
      when_open = NO_ACTION, when_closed = NO_ACTION,
      on_leading = DO_FEEDHOLD, on_trailing = NO_ACTION\<rparr>"

text \<open>A machine that is not homing, with both flags clear, at tick \<open>t\<close>.\<close>

definition example_machine :: "32 word \<Rightarrow> machine" where
  "example_machine t =
     \<lparr>tick_count = t, cycle_state = CYCLE_OTHER 0, request_feedhold = False,
      limit_flag = False, indicator_led = False, calls = []\<rparr>"

text \<open>A switch array after configuration: every slot is the switch above.\<close>

definition example_sw :: switches_t where
  "example_sw = \<lparr>sw_type = SW_NORMALLY_CLOSED, sw_s = (\<lambda>axis position. example_switch)\<rparr>"

subsection \<open>Derived notions used in the statements\<close>

text \<open>
  The switch as lines 141 to 145 leave it when a transition is accepted: the new
  state, the lockout armed from the current tick, the edge classified.
\<close>

definition accept_transition :: "switch_t \<Rightarrow> 8 word \<Rightarrow> machine \<Rightarrow> switch_t" where
  "accept_transition s pin_value m =
     s\<lparr>state := pin_sense_corrected pin_value (type s),
       debounce_timeout := GetTickCount m + ucast (debounce_ticks s),
       edge := (if pin_sense_corrected pin_value (type s) = SW_OPEN then SW_TRAILING
                else SW_LEADING)\<rparr>"

text \<open>The inner loop of \<^verbatim>\<open>switch_init\<close> for one axis, run over the positions below \<open>n\<close>.\<close>

definition init_positions :: "nat \<Rightarrow> nat \<Rightarrow> switches_t \<Rightarrow> switches_t" where
  "init_positions n axis sw =
     fold (\<lambda>position sw'. update_switch axis position (init_switch (sw_type sw')) sw')
       [0..<n] sw"

section \<open>Properties\<close>

lemma call_function_switch: "fst (call_function f s m) = s"
  by (cases f) (simp_all add: no_action_def do_feedhold_def Let_def)

lemma invoke_switch: "fst (invoke slot f s m) = s"
  by (simp add: invoke_def call_function_switch)

subsection \<open>The pin sense\<close>

text \<open>
  The numbering of the wiring types is forced by the polarity the file documents
  (lines 35 to 40: a normally-open switch triggers on the falling edge of its pin, a
  normally-closed one on the rising edge): line 129 maps pin 0 to closed and pin 1 to
  open exactly for type 0, and pin 0 to open and pin 1 to closed exactly for type 1.
\<close>

lemma polarity_fixes_encoding:
  "(pin_sense_corrected 0 ty = SW_CLOSED \<and> pin_sense_corrected 1 ty = SW_OPEN) =
     (ty = SW_NORMALLY_OPEN) \<and>
   (pin_sense_corrected 0 ty = SW_OPEN \<and> pin_sense_corrected 1 ty = SW_CLOSED) =
     (ty = SW_NORMALLY_CLOSED)"
proof -
  have a: "(ty XOR 1 = 1) = (ty = 0)"
    by (metis bit.xor_left_self word_bw_comms(3) xor.right_neutral)
  have b: "(ty XOR 1 = 0) = (ty = 1)"
    by (metis bit.xor_left_self word_bw_comms(3) xor.right_neutral xor_self_eq)
  have "(pin_sense_corrected 0 ty = SW_CLOSED \<and> pin_sense_corrected 1 ty = SW_OPEN) =
      (ty = SW_NORMALLY_OPEN)"
    using a
    by (auto simp add: pin_sense_corrected_def SW_CLOSED_def SW_OPEN_def SW_NORMALLY_OPEN_def)
  moreover
  have "(pin_sense_corrected 0 ty = SW_OPEN \<and> pin_sense_corrected 1 ty = SW_CLOSED) =
      (ty = SW_NORMALLY_CLOSED)"
    using b
    by (auto simp add: pin_sense_corrected_def SW_CLOSED_def SW_OPEN_def SW_NORMALLY_CLOSED_def)
  ultimately show ?thesis by simp
qed

subsection \<open>Callbacks leave the switch and the trace alone\<close>

lemma calls_call_function: "calls (snd (call_function f s m)) = calls m"
  by (cases f) (simp_all add: no_action_def do_feedhold_def Let_def)

lemma tick_count_call_function: "tick_count (snd (call_function f s m)) = tick_count m"
  by (cases f) (simp_all add: no_action_def do_feedhold_def Let_def)

lemma calls_invoke: "calls (snd (invoke slot f s m)) = calls m @ [(slot, f)]"
  by (simp add: invoke_def calls_call_function)

lemma invoke_machine:
  "snd (invoke slot f s m) = snd (call_function f s (m\<lparr>calls := calls m @ [(slot, f)]\<rparr>))"
  by (simp add: invoke_def)

lemma open_not_closed: "SW_OPEN \<noteq> SW_CLOSED"
  by (simp add: SW_OPEN_def SW_CLOSED_def)

subsection \<open>The four paths through read_switch\<close>

lemma read_switch_disabled:
  "mode s = SW_MODE_DISABLED \<Longrightarrow> read_switch s pin_value m = (0, s, m)"
  by (simp add: read_switch_def)

lemma read_switch_steady:
  assumes "mode s \<noteq> SW_MODE_DISABLED"
    and "pin_sense_corrected pin_value (type s) = state s"
  shows "read_switch s pin_value m =
     (0, s, if state s = SW_OPEN then snd (invoke WHEN_OPEN (when_open s) s m)
            else if state s = SW_CLOSED then snd (invoke WHEN_CLOSED (when_closed s) s m)
            else m)"
  using assms open_not_closed
  by (simp add: read_switch_def Let_def split_beta invoke_switch prod_eq_iff)


lemma read_switch_accept:
  assumes "mode s \<noteq> SW_MODE_DISABLED"
    and "pin_sense_corrected pin_value (type s) \<noteq> state s"
    and "debounce_timeout s = 0 \<or> debounce_timeout s \<le> GetTickCount m"
  shows "read_switch s pin_value m =
     (1, accept_transition s pin_value m,
      if pin_sense_corrected pin_value (type s) = SW_OPEN
      then snd (invoke ON_TRAILING (on_trailing s) (accept_transition s pin_value m) m)
      else snd (invoke ON_LEADING (on_leading s) (accept_transition s pin_value m) m))"
  using assms
  by (auto simp add: read_switch_def Let_def split_beta invoke_switch accept_transition_def
      prod_eq_iff not_less)

lemma read_switch_true_iff:
  "(fst (read_switch s pin_value m) = 1) =
     (mode s \<noteq> SW_MODE_DISABLED \<and> pin_sense_corrected pin_value (type s) \<noteq> state s \<and>
      (debounce_timeout s = 0 \<or> debounce_timeout s \<le> GetTickCount m))"
  by (auto simp add: read_switch_def Let_def split_beta not_less)

subsection \<open>The loops of switch_init\<close>

lemma sw_type_update_switch: "sw_type (update_switch axis position f sw) = sw_type sw"
  by (simp add: update_switch_def)

lemma sw_s_update_switch:
  "sw_s (update_switch axis position f sw) a p =
     (if a = axis \<and> p = position then f (sw_s sw a p) else sw_s sw a p)"
  by (simp add: update_switch_def)

lemma init_positions:
  "sw_type (init_positions n axis sw) = sw_type sw \<and>
   sw_s (init_positions n axis sw) a p =
     (if a = axis \<and> p < n then init_switch (sw_type sw) (sw_s sw a p) else sw_s sw a p)"
  by (induction n)
    (auto simp add: init_positions_def sw_type_update_switch sw_s_update_switch less_Suc_eq)

lemma init_axes:
  "sw_type (fold (init_positions n) [0..<k] sw) = sw_type sw \<and>
   sw_s (fold (init_positions n) [0..<k] sw) a p =
     (if a < k \<and> p < n then init_switch (sw_type sw) (sw_s sw a p) else sw_s sw a p)"
  by (induction k) (auto simp add: init_positions less_Suc_eq)

lemma switch_init_fold: "switch_init sw = fold (init_positions SW_POSITIONS) [0..<SW_PAIRS] sw"
  unfolding switch_init_def init_positions_def by (rule refl)

lemma sw_s_switch_init:
  "sw_s (switch_init sw) a p =
     (if a < SW_PAIRS \<and> p < SW_POSITIONS then init_switch (sw_type sw) (sw_s sw a p)
      else sw_s sw a p)"
  by (simp add: switch_init_fold init_axes)

lemma sw_type_switch_init: "sw_type (switch_init sw) = sw_type sw"
  by (simp add: switch_init_fold init_axes)

subsection \<open>The order of the poll\<close>





subsection \<open>The state a switch is left in\<close>

text \<open>
  When the switch is enabled and no lockout is running, \<^verbatim>\<open>read_switch\<close> leaves the
  corrected sample in \<open>state\<close>: either it was there already, or it is stored.
\<close>

lemma state_after_read_switch:
  assumes "mode s \<noteq> SW_MODE_DISABLED"
    and "debounce_timeout s = 0 \<or> debounce_timeout s \<le> GetTickCount m"
  shows "state (fst (snd (read_switch s pin_value m))) = pin_sense_corrected pin_value (type s)"
proof (cases "pin_sense_corrected pin_value (type s) = state s")
  case True
  then show ?thesis by (simp add: read_switch_steady [OF assms(1) True])
next
  case False
  then show ?thesis
    by (simp add: read_switch_accept [OF assms(1) False assms(2)] accept_transition_def)
qed

lemma pin_sense_values:
  "pin_sense_corrected 0 SW_NORMALLY_OPEN = SW_CLOSED \<and>
   pin_sense_corrected 1 SW_NORMALLY_OPEN = SW_OPEN \<and>
   pin_sense_corrected 0 SW_NORMALLY_CLOSED = SW_OPEN \<and>
   pin_sense_corrected 1 SW_NORMALLY_CLOSED = SW_CLOSED"
  by (simp add: pin_sense_corrected_def SW_NORMALLY_OPEN_def SW_NORMALLY_CLOSED_def
      SW_OPEN_def SW_CLOSED_def)


section \<open>The claims\<close>

subsection \<open>C1: the escalation action\<close>

text \<open>
  Claim C1. \<^verbatim>\<open>_do_feedhold\<close>, the leading-edge callback \<^verbatim>\<open>switch_init\<close> binds,
  always toggles the indicator and leaves the switch as it is. While the machine is
  homing it sets the feedhold request, whatever the mode of the switch, and nothing
  else. While the machine is not homing it sets the limit flag when the mode has the
  limit bit, and nothing else; when the mode has no limit bit it only toggles the
  indicator.
\<close>

theorem do_feedhold_escalation:
  "fst (do_feedhold s m) = s \<and>
   indicator_led (snd (do_feedhold s m)) = (\<not> indicator_led m) \<and>
   (cycle_state m = CYCLE_HOMING \<longrightarrow>
      snd (do_feedhold s m) =
        m\<lparr>indicator_led := \<not> indicator_led m, request_feedhold := True\<rparr>) \<and>
   (cycle_state m \<noteq> CYCLE_HOMING \<and> mode s AND SW_LIMIT_BIT \<noteq> 0 \<longrightarrow>
      snd (do_feedhold s m) =
        m\<lparr>indicator_led := \<not> indicator_led m, limit_flag := True\<rparr>) \<and>
   (cycle_state m \<noteq> CYCLE_HOMING \<and> mode s AND SW_LIMIT_BIT = 0 \<longrightarrow>
      snd (do_feedhold s m) = m\<lparr>indicator_led := \<not> indicator_led m\<rparr>) \<and>
   call_function (on_leading (init_switch ty s')) s m = do_feedhold s m"
  by (simp add: do_feedhold_def Let_def init_switch_def)

text \<open>
  The theorem at four inputs: a homing-only switch and a limit switch while homing
  (feedhold both times), the limit switch while not homing (limit flag), and the
  homing-only switch while not homing (the indicator only).
\<close>

theorem do_feedhold_escalation_witness:
  "snd (do_feedhold (example_switch\<lparr>mode := SW_HOMING_BIT\<rparr>)
         ((example_machine 10)\<lparr>cycle_state := CYCLE_HOMING\<rparr>)) =
     (example_machine 10)\<lparr>cycle_state := CYCLE_HOMING, indicator_led := True,
        request_feedhold := True\<rparr> \<and>
   snd (do_feedhold example_switch ((example_machine 10)\<lparr>cycle_state := CYCLE_HOMING\<rparr>)) =
     (example_machine 10)\<lparr>cycle_state := CYCLE_HOMING, indicator_led := True,
        request_feedhold := True\<rparr> \<and>
   snd (do_feedhold example_switch (example_machine 10)) =
     (example_machine 10)\<lparr>indicator_led := True, limit_flag := True\<rparr> \<and>
   snd (do_feedhold (example_switch\<lparr>mode := SW_HOMING_BIT\<rparr>) (example_machine 10)) =
     (example_machine 10)\<lparr>indicator_led := True\<rparr>"
  using do_feedhold_escalation [of "example_switch\<lparr>mode := SW_HOMING_BIT\<rparr>"
      "(example_machine 10)\<lparr>cycle_state := CYCLE_HOMING\<rparr>"]
    do_feedhold_escalation [of example_switch
      "(example_machine 10)\<lparr>cycle_state := CYCLE_HOMING\<rparr>"]
    do_feedhold_escalation [of example_switch "example_machine 10"]
    do_feedhold_escalation [of "example_switch\<lparr>mode := SW_HOMING_BIT\<rparr>" "example_machine 10"]
  by (simp add: example_switch_def example_machine_def SW_HOMING_BIT_def SW_LIMIT_BIT_def)

subsection \<open>C2: debounce suppression\<close>




subsection \<open>C3: polarity\<close>

text \<open>
  Claim C3. For a normally-open switch a raw sample of 0 is corrected to closed and a
  raw sample of 1 to open; for a normally-closed switch a raw sample of 0 is corrected
  to open and a raw sample of 1 to closed. On an enabled switch with no lockout running
  (the update stores nothing otherwise) that corrected value is the logical state
  \<^verbatim>\<open>read_switch\<close> leaves, so the two wiring types send the same raw sample to opposite
  logical states.
\<close>

theorem polarity_correctness:
  "pin_sense_corrected 0 SW_NORMALLY_OPEN = SW_CLOSED \<and>
   pin_sense_corrected 1 SW_NORMALLY_OPEN = SW_OPEN \<and>
   pin_sense_corrected 0 SW_NORMALLY_CLOSED = SW_OPEN \<and>
   pin_sense_corrected 1 SW_NORMALLY_CLOSED = SW_CLOSED \<and>
   (mode s \<noteq> SW_MODE_DISABLED \<and>
    (debounce_timeout s = 0 \<or> debounce_timeout s \<le> GetTickCount m) \<longrightarrow>
      (type s = SW_NORMALLY_OPEN \<longrightarrow>
         state (fst (snd (read_switch s 0 m))) = SW_CLOSED \<and>
         state (fst (snd (read_switch s 1 m))) = SW_OPEN) \<and>
      (type s = SW_NORMALLY_CLOSED \<longrightarrow>
         state (fst (snd (read_switch s 0 m))) = SW_OPEN \<and>
         state (fst (snd (read_switch s 1 m))) = SW_CLOSED) \<and>
      state (fst (snd (read_switch (s\<lparr>type := SW_NORMALLY_OPEN\<rparr>) 0 m))) \<noteq>
        state (fst (snd (read_switch (s\<lparr>type := SW_NORMALLY_CLOSED\<rparr>) 0 m))) \<and>
      state (fst (snd (read_switch (s\<lparr>type := SW_NORMALLY_OPEN\<rparr>) 1 m))) \<noteq>
        state (fst (snd (read_switch (s\<lparr>type := SW_NORMALLY_CLOSED\<rparr>) 1 m))))"
proof -
  have stored:
    "(type s = SW_NORMALLY_OPEN \<longrightarrow>
         state (fst (snd (read_switch s 0 m))) = SW_CLOSED \<and>
         state (fst (snd (read_switch s 1 m))) = SW_OPEN) \<and>
      (type s = SW_NORMALLY_CLOSED \<longrightarrow>
         state (fst (snd (read_switch s 0 m))) = SW_OPEN \<and>
         state (fst (snd (read_switch s 1 m))) = SW_CLOSED) \<and>
      state (fst (snd (read_switch (s\<lparr>type := SW_NORMALLY_OPEN\<rparr>) 0 m))) \<noteq>
        state (fst (snd (read_switch (s\<lparr>type := SW_NORMALLY_CLOSED\<rparr>) 0 m))) \<and>
      state (fst (snd (read_switch (s\<lparr>type := SW_NORMALLY_OPEN\<rparr>) 1 m))) \<noteq>
        state (fst (snd (read_switch (s\<lparr>type := SW_NORMALLY_CLOSED\<rparr>) 1 m)))"
    if en: "mode s \<noteq> SW_MODE_DISABLED"
      and free: "debounce_timeout s = 0 \<or> debounce_timeout s \<le> GetTickCount m"
  proof -
    have no: "mode (s\<lparr>type := SW_NORMALLY_OPEN\<rparr>) \<noteq> SW_MODE_DISABLED"
      "debounce_timeout (s\<lparr>type := SW_NORMALLY_OPEN\<rparr>) = 0 \<or>
       debounce_timeout (s\<lparr>type := SW_NORMALLY_OPEN\<rparr>) \<le> GetTickCount m"
      using en free by simp_all
    have nc: "mode (s\<lparr>type := SW_NORMALLY_CLOSED\<rparr>) \<noteq> SW_MODE_DISABLED"
      "debounce_timeout (s\<lparr>type := SW_NORMALLY_CLOSED\<rparr>) = 0 \<or>
       debounce_timeout (s\<lparr>type := SW_NORMALLY_CLOSED\<rparr>) \<le> GetTickCount m"
      using en free by simp_all
    show ?thesis
      using pin_sense_values open_not_closed
      by (simp add: state_after_read_switch [OF en free] state_after_read_switch [OF no]
          state_after_read_switch [OF nc])
  qed
  show ?thesis
    using pin_sense_values stored by blast
qed

text \<open>
  The theorem on the example switch, wired normally open and then normally closed: the
  same samples give opposite states.
\<close>

theorem polarity_correctness_witness:
  "mode example_switch \<noteq> SW_MODE_DISABLED \<and>
   (debounce_timeout example_switch = 0 \<or>
    debounce_timeout example_switch \<le> GetTickCount (example_machine 10)) \<and>
   type example_switch = SW_NORMALLY_OPEN \<and>
   state (fst (snd (read_switch example_switch 0 (example_machine 10)))) = SW_CLOSED \<and>
   state (fst (snd (read_switch example_switch 1 (example_machine 10)))) = SW_OPEN \<and>
   type (example_switch\<lparr>type := SW_NORMALLY_CLOSED\<rparr>) = SW_NORMALLY_CLOSED \<and>
   state (fst (snd (read_switch (example_switch\<lparr>type := SW_NORMALLY_CLOSED\<rparr>) 0
     (example_machine 10)))) = SW_OPEN \<and>
   state (fst (snd (read_switch (example_switch\<lparr>type := SW_NORMALLY_CLOSED\<rparr>) 1
     (example_machine 10)))) = SW_CLOSED"
proof -
  have h: "mode example_switch \<noteq> SW_MODE_DISABLED"
    "debounce_timeout example_switch = 0 \<or>
     debounce_timeout example_switch \<le> GetTickCount (example_machine 10)"
    by (simp_all add: example_switch_def SW_MODE_DISABLED_def SW_LIMIT_BIT_def)
  have h': "mode (example_switch\<lparr>type := SW_NORMALLY_CLOSED\<rparr>) \<noteq> SW_MODE_DISABLED"
    "debounce_timeout (example_switch\<lparr>type := SW_NORMALLY_CLOSED\<rparr>) = 0 \<or>
     debounce_timeout (example_switch\<lparr>type := SW_NORMALLY_CLOSED\<rparr>)
       \<le> GetTickCount (example_machine 10)"
    using h by simp_all
  have t: "type example_switch = SW_NORMALLY_OPEN"
    by (simp add: example_switch_def)
  show ?thesis
    using h h' t polarity_correctness [of example_switch "example_machine 10"]
      polarity_correctness [of "example_switch\<lparr>type := SW_NORMALLY_CLOSED\<rparr>" "example_machine 10"]
    by simp
qed

subsection \<open>C4: how the corrected sample is computed\<close>

text \<open>
  Claim C4, as amended. Line 129 computes the corrected sample as the raw sample XOR 1
  when the switch is normally open, and as the raw sample itself when the switch is
  normally closed. A corrected sample of 0 is logically open and one of 1 is logically
  closed: when a transition is accepted the corrected sample becomes the state, 0 as
  \<^verbatim>\<open>SW_OPEN\<close> with a trailing edge and 1 as \<^verbatim>\<open>SW_CLOSED\<close> with a leading edge.
\<close>

theorem pin_sense_by_wiring:
  "pin_sense_corrected pin_value SW_NORMALLY_OPEN = pin_value XOR 1 \<and>
   pin_sense_corrected pin_value SW_NORMALLY_CLOSED = pin_value \<and>
   (fst (read_switch s pin_value m) = 1 \<longrightarrow>
      state (fst (snd (read_switch s pin_value m))) = pin_sense_corrected pin_value (type s) \<and>
      (pin_sense_corrected pin_value (type s) = 0 \<longrightarrow>
         state (fst (snd (read_switch s pin_value m))) = SW_OPEN \<and>
         edge (fst (snd (read_switch s pin_value m))) = SW_TRAILING) \<and>
      (pin_sense_corrected pin_value (type s) = 1 \<longrightarrow>
         state (fst (snd (read_switch s pin_value m))) = SW_CLOSED \<and>
         edge (fst (snd (read_switch s pin_value m))) = SW_LEADING))"
proof -
  have "pin_sense_corrected pin_value SW_NORMALLY_OPEN = pin_value XOR 1"
    by (simp add: pin_sense_corrected_def SW_NORMALLY_OPEN_def)
  moreover have "pin_sense_corrected pin_value SW_NORMALLY_CLOSED = pin_value"
    by (simp add: pin_sense_corrected_def SW_NORMALLY_CLOSED_def)
  moreover have
    "state (fst (snd (read_switch s pin_value m))) = pin_sense_corrected pin_value (type s) \<and>
      (pin_sense_corrected pin_value (type s) = 0 \<longrightarrow>
         state (fst (snd (read_switch s pin_value m))) = SW_OPEN \<and>
         edge (fst (snd (read_switch s pin_value m))) = SW_TRAILING) \<and>
      (pin_sense_corrected pin_value (type s) = 1 \<longrightarrow>
         state (fst (snd (read_switch s pin_value m))) = SW_CLOSED \<and>
         edge (fst (snd (read_switch s pin_value m))) = SW_LEADING)"
    if "fst (read_switch s pin_value m) = 1"
  proof -
    from that have c: "mode s \<noteq> SW_MODE_DISABLED"
      "pin_sense_corrected pin_value (type s) \<noteq> state s"
      "debounce_timeout s = 0 \<or> debounce_timeout s \<le> GetTickCount m"
      by (simp_all add: read_switch_true_iff)
    show ?thesis
      by (simp add: read_switch_accept [OF c] accept_transition_def SW_OPEN_def SW_CLOSED_def)
  qed
  ultimately show ?thesis by blast
qed

text \<open>
  The theorem on the example switch: normally open, raw sample 0, corrected sample 1,
  accepted as closed with a leading edge.
\<close>

theorem pin_sense_by_wiring_witness:
  "fst (read_switch example_switch 0 (example_machine 10)) = 1 \<and>
   pin_sense_corrected 0 (type example_switch) = 1 \<and>
   state (fst (snd (read_switch example_switch 0 (example_machine 10)))) = SW_CLOSED \<and>
   edge (fst (snd (read_switch example_switch 0 (example_machine 10)))) = SW_LEADING"
proof -
  have accepted: "fst (read_switch example_switch 0 (example_machine 10)) = 1"
    by (simp add: read_switch_true_iff example_switch_def pin_sense_corrected_def
        SW_MODE_DISABLED_def SW_LIMIT_BIT_def SW_NORMALLY_OPEN_def SW_OPEN_def)
  have sample: "pin_sense_corrected 0 (type example_switch) = 1"
    by (simp add: example_switch_def pin_sense_corrected_def SW_NORMALLY_OPEN_def)
  show ?thesis
    using accepted sample pin_sense_by_wiring [of 0 example_switch "example_machine 10"]
    by (simp add: SW_CLOSED_def)
qed

text \<open>
  C4 as stated has the two wiring types the wrong way round: it has the raw sample
  XOR 1 for a normally-closed switch and the raw sample itself for a normally-open one.
  At both raw samples the code gives the other value for each wiring type.
\<close>

theorem pin_sense_counterexample:
  "pin_sense_corrected 0 SW_NORMALLY_CLOSED \<noteq> 0 XOR 1 \<and>
   pin_sense_corrected 0 SW_NORMALLY_OPEN \<noteq> 0 \<and>
   pin_sense_corrected 1 SW_NORMALLY_CLOSED \<noteq> 1 XOR 1 \<and>
   pin_sense_corrected 1 SW_NORMALLY_OPEN \<noteq> 1"
  by (simp add: pin_sense_corrected_def SW_NORMALLY_CLOSED_def SW_NORMALLY_OPEN_def)

subsection \<open>C5: one edge callback per accepted transition\<close>

text \<open>
  Claim C5. When \<^verbatim>\<open>read_switch\<close> accepts a transition (the switch is enabled, the
  corrected sample differs from the state, and no lockout is running) it returns
  \<^verbatim>\<open>true\<close> and leaves the switch with the corrected sample as its state, the lockout
  armed and the edge classified. If the new state is open the edge is trailing and the
  machine is what the one call of the function bound to \<^verbatim>\<open>on_trailing\<close> makes of it:
  the machine as it was, with that call added to the trace, when the function is
  \<^verbatim>\<open>_no_action\<close>, and what \<^verbatim>\<open>_do_feedhold\<close> makes of that when the function is
  \<^verbatim>\<open>_do_feedhold\<close>. If the new state is closed (or anything but open) the edge is
  leading and the same holds with \<^verbatim>\<open>on_leading\<close>. In both cases the trace grows by
  exactly one call, of the matching edge callback.
\<close>

theorem edge_callback_once:
  assumes "mode s \<noteq> SW_MODE_DISABLED"
    and "pin_sense_corrected pin_value (type s) \<noteq> state s"
    and "debounce_timeout s = 0 \<or> debounce_timeout s \<le> GetTickCount m"
  shows "(let r = read_switch s pin_value m; s' = fst (snd r); m' = snd (snd r) in
         fst r = 1 \<and>
         s' = s\<lparr>state := pin_sense_corrected pin_value (type s),
                debounce_timeout := GetTickCount m + ucast (debounce_ticks s),
                edge := (if pin_sense_corrected pin_value (type s) = SW_OPEN then SW_TRAILING
                         else SW_LEADING)\<rparr> \<and>
         state s' = pin_sense_corrected pin_value (type s) \<and>
         (state s' = SW_OPEN \<longrightarrow>
            edge s' = SW_TRAILING \<and>
            calls m' = calls m @ [(ON_TRAILING, on_trailing s)] \<and>
            m' = snd (call_function (on_trailing s) s'
                       (m\<lparr>calls := calls m @ [(ON_TRAILING, on_trailing s)]\<rparr>)) \<and>
            (on_trailing s = NO_ACTION \<longrightarrow>
               m' = m\<lparr>calls := calls m @ [(ON_TRAILING, NO_ACTION)]\<rparr>) \<and>
            (on_trailing s = DO_FEEDHOLD \<longrightarrow>
               m' = snd (do_feedhold s' (m\<lparr>calls := calls m @ [(ON_TRAILING, DO_FEEDHOLD)]\<rparr>)))) \<and>
         (state s' \<noteq> SW_OPEN \<longrightarrow>
            edge s' = SW_LEADING \<and>
            calls m' = calls m @ [(ON_LEADING, on_leading s)] \<and>
            m' = snd (call_function (on_leading s) s'
                       (m\<lparr>calls := calls m @ [(ON_LEADING, on_leading s)]\<rparr>)) \<and>
            (on_leading s = NO_ACTION \<longrightarrow>
               m' = m\<lparr>calls := calls m @ [(ON_LEADING, NO_ACTION)]\<rparr>) \<and>
            (on_leading s = DO_FEEDHOLD \<longrightarrow>
               m' = snd (do_feedhold s' (m\<lparr>calls := calls m @ [(ON_LEADING, DO_FEEDHOLD)]\<rparr>)))) \<and>
         (state s' = SW_CLOSED \<longrightarrow>
            edge s' = SW_LEADING \<and>
            calls m' = calls m @ [(ON_LEADING, on_leading s)]))"
  using open_not_closed
  by (simp add: read_switch_accept [OF assms] invoke_machine calls_call_function
      accept_transition_def Let_def no_action_def)

text \<open>
  The theorem on the example switch closing at tick 10, the machine not homing: one
  call, of the leading-edge callback \<^verbatim>\<open>_do_feedhold\<close>, which toggles the indicator and
  sets the limit flag.
\<close>

theorem edge_callback_once_witness:
  "mode example_switch \<noteq> SW_MODE_DISABLED \<and>
   pin_sense_corrected 0 (type example_switch) \<noteq> state example_switch \<and>
   (debounce_timeout example_switch = 0 \<or>
    debounce_timeout example_switch \<le> GetTickCount (example_machine 10)) \<and>
   read_switch example_switch 0 (example_machine 10) =
     (1, example_switch\<lparr>state := SW_CLOSED, edge := SW_LEADING, debounce_timeout := 60\<rparr>,
      (example_machine 10)\<lparr>limit_flag := True, indicator_led := True,
         calls := [(ON_LEADING, DO_FEEDHOLD)]\<rparr>)"
proof -
  have h: "mode example_switch \<noteq> SW_MODE_DISABLED"
    "pin_sense_corrected 0 (type example_switch) \<noteq> state example_switch"
    "debounce_timeout example_switch = 0 \<or>
     debounce_timeout example_switch \<le> GetTickCount (example_machine 10)"
    by (simp_all add: example_switch_def SW_MODE_DISABLED_def SW_LIMIT_BIT_def
        pin_sense_corrected_def SW_NORMALLY_OPEN_def SW_OPEN_def)
  have sample: "pin_sense_corrected 0 (type example_switch) = SW_CLOSED"
    "on_leading example_switch = DO_FEEDHOLD"
    "GetTickCount (example_machine 10) + ucast (debounce_ticks example_switch) = 60"
    by (simp_all add: example_switch_def example_machine_def pin_sense_corrected_def
        SW_NORMALLY_OPEN_def SW_CLOSED_def GetTickCount_def)
  have effect: "snd (do_feedhold
        (example_switch\<lparr>state := SW_CLOSED, debounce_timeout := 60, edge := SW_LEADING\<rparr>)
        ((example_machine 10)\<lparr>calls := calls (example_machine 10) @ [(ON_LEADING, DO_FEEDHOLD)]\<rparr>)) =
      (example_machine 10)\<lparr>limit_flag := True, indicator_led := True,
         calls := [(ON_LEADING, DO_FEEDHOLD)]\<rparr>"
    by (simp add: do_feedhold_def example_switch_def example_machine_def Let_def SW_LIMIT_BIT_def)
  have upd: "example_switch\<lparr>state := SW_CLOSED, debounce_timeout := 60, edge := SW_LEADING\<rparr> =
      example_switch\<lparr>state := SW_CLOSED, edge := SW_LEADING, debounce_timeout := 60\<rparr>"
    by simp
  show ?thesis
    using h sample effect open_not_closed edge_callback_once [OF h]
    by (simp add: Let_def prod_eq_iff upd)
qed

subsection \<open>C6: a disabled switch\<close>

text \<open>
  Claim C6. On a disabled switch \<^verbatim>\<open>read_switch\<close> returns \<^verbatim>\<open>false\<close> for every pin
  sample and every tick, and leaves the whole switch and the whole machine, the trace
  of callback calls included, as they were.
\<close>

theorem disabled_switch_inert:
  assumes "mode s = SW_MODE_DISABLED"
  shows "read_switch s pin_value m = (0, s, m)"
  using assms by (rule read_switch_disabled)

theorem disabled_switch_inert_witness:
  "mode (example_switch\<lparr>mode := SW_MODE_DISABLED\<rparr>) = SW_MODE_DISABLED \<and>
   read_switch (example_switch\<lparr>mode := SW_MODE_DISABLED\<rparr>) 0 (example_machine 10) =
     (0, example_switch\<lparr>mode := SW_MODE_DISABLED\<rparr>, example_machine 10)"
  using disabled_switch_inert
    [of "example_switch\<lparr>mode := SW_MODE_DISABLED\<rparr>" 0 "example_machine 10"]
  by simp

subsection \<open>C7: the steady state\<close>

text \<open>
  Claim C7. When the corrected sample equals the state of an enabled switch,
  \<^verbatim>\<open>read_switch\<close> returns \<^verbatim>\<open>false\<close> and leaves the switch as it is. If the state is
  open the machine is what the one call of the function bound to \<^verbatim>\<open>when_open\<close> makes
  of it: the machine as it was, with that call added to the trace, when the function
  is \<^verbatim>\<open>_no_action\<close>, and what \<^verbatim>\<open>_do_feedhold\<close> makes of that when the function is
  \<^verbatim>\<open>_do_feedhold\<close>. If the state is closed the same holds with \<^verbatim>\<open>when_closed\<close>.
  The trace grows by exactly that one call; no edge callback is in it.
\<close>

theorem steady_state_callback:
  assumes "mode s \<noteq> SW_MODE_DISABLED"
    and "pin_sense_corrected pin_value (type s) = state s"
  shows "(let r = read_switch s pin_value m; m' = snd (snd r) in
         fst r = 0 \<and>
         fst (snd r) = s \<and>
         (state s = SW_OPEN \<longrightarrow>
            calls m' = calls m @ [(WHEN_OPEN, when_open s)] \<and>
            m' = snd (call_function (when_open s) s
                       (m\<lparr>calls := calls m @ [(WHEN_OPEN, when_open s)]\<rparr>)) \<and>
            (when_open s = NO_ACTION \<longrightarrow>
               m' = m\<lparr>calls := calls m @ [(WHEN_OPEN, NO_ACTION)]\<rparr>) \<and>
            (when_open s = DO_FEEDHOLD \<longrightarrow>
               m' = snd (do_feedhold s (m\<lparr>calls := calls m @ [(WHEN_OPEN, DO_FEEDHOLD)]\<rparr>)))) \<and>
         (state s = SW_CLOSED \<longrightarrow>
            calls m' = calls m @ [(WHEN_CLOSED, when_closed s)] \<and>
            m' = snd (call_function (when_closed s) s
                       (m\<lparr>calls := calls m @ [(WHEN_CLOSED, when_closed s)]\<rparr>)) \<and>
            (when_closed s = NO_ACTION \<longrightarrow>
               m' = m\<lparr>calls := calls m @ [(WHEN_CLOSED, NO_ACTION)]\<rparr>) \<and>
            (when_closed s = DO_FEEDHOLD \<longrightarrow>
               m' = snd (do_feedhold s (m\<lparr>calls := calls m @ [(WHEN_CLOSED, DO_FEEDHOLD)]\<rparr>)))))"
  using open_not_closed
  by (simp add: read_switch_steady [OF assms] invoke_machine calls_call_function Let_def
      no_action_def)

text \<open>
  The theorem on the open example switch reading 1 at tick 0 (one call of
  \<^verbatim>\<open>when_open\<close>, which does nothing), and on the closed switch with \<^verbatim>\<open>when_closed\<close>
  rebound to \<^verbatim>\<open>_do_feedhold\<close> reading 0 (one call, which toggles the indicator and
  sets the limit flag).
\<close>

theorem steady_state_callback_witness:
  "mode example_switch \<noteq> SW_MODE_DISABLED \<and>
   pin_sense_corrected 1 (type example_switch) = state example_switch \<and>
   state example_switch = SW_OPEN \<and>
   read_switch example_switch 1 (example_machine 0) =
     (0, example_switch, (example_machine 0)\<lparr>calls := [(WHEN_OPEN, NO_ACTION)]\<rparr>) \<and>
   mode (example_switch\<lparr>state := SW_CLOSED, when_closed := DO_FEEDHOLD\<rparr>) \<noteq> SW_MODE_DISABLED \<and>
   pin_sense_corrected 0 (type (example_switch\<lparr>state := SW_CLOSED, when_closed := DO_FEEDHOLD\<rparr>)) =
     state (example_switch\<lparr>state := SW_CLOSED, when_closed := DO_FEEDHOLD\<rparr>) \<and>
   read_switch (example_switch\<lparr>state := SW_CLOSED, when_closed := DO_FEEDHOLD\<rparr>) 0
       (example_machine 0) =
     (0, example_switch\<lparr>state := SW_CLOSED, when_closed := DO_FEEDHOLD\<rparr>,
      (example_machine 0)\<lparr>limit_flag := True, indicator_led := True,
         calls := [(WHEN_CLOSED, DO_FEEDHOLD)]\<rparr>)"
proof -
  let ?c = "example_switch\<lparr>state := SW_CLOSED, when_closed := DO_FEEDHOLD\<rparr>"
  have h: "mode example_switch \<noteq> SW_MODE_DISABLED"
    "pin_sense_corrected 1 (type example_switch) = state example_switch"
    by (simp_all add: example_switch_def SW_MODE_DISABLED_def SW_LIMIT_BIT_def
        pin_sense_corrected_def SW_NORMALLY_OPEN_def SW_OPEN_def)
  have o: "state example_switch = SW_OPEN" "when_open example_switch = NO_ACTION"
    "calls (example_machine 0) = []"
    by (simp_all add: example_switch_def example_machine_def)
  have h': "mode ?c \<noteq> SW_MODE_DISABLED" "pin_sense_corrected 0 (type ?c) = state ?c"
    by (simp_all add: example_switch_def SW_MODE_DISABLED_def SW_LIMIT_BIT_def
        pin_sense_corrected_def SW_NORMALLY_OPEN_def SW_CLOSED_def)
  have effect: "snd (do_feedhold ?c
        ((example_machine 0)\<lparr>calls := [(WHEN_CLOSED, DO_FEEDHOLD)]\<rparr>)) =
      (example_machine 0)\<lparr>limit_flag := True, indicator_led := True,
         calls := [(WHEN_CLOSED, DO_FEEDHOLD)]\<rparr>"
    by (simp add: do_feedhold_def example_switch_def example_machine_def Let_def SW_LIMIT_BIT_def)
  show ?thesis
    using h o h' effect open_not_closed
      steady_state_callback [OF h, of "example_machine 0"]
      steady_state_callback [OF h', of "example_machine 0"]
    by (simp add: Let_def prod_eq_iff no_action_def)
qed

subsection \<open>C8: the poll of the whole table\<close>



subsection \<open>C9: what switch_init leaves behind\<close>

text \<open>
  Claim C9, as amended. After \<^verbatim>\<open>switch_init\<close> every slot of the table has its type
  copied from the global type (which the function does not change), is open, has no
  edge, the default lockout quantum, no lockout armed, both steady-state callbacks and
  the trailing-edge callback bound to the function that does nothing, and the
  leading-edge callback bound to \<^verbatim>\<open>_do_feedhold\<close>. The mode of the slot is what it was
  before the call: the function does not write it (line 77 is commented out, and the
  comment above the function says that mode is set from configuration). So a slot is
  disabled after the call exactly when it was disabled before it.
\<close>

theorem switch_init_slots:
  assumes "axis < SW_PAIRS" and "position < SW_POSITIONS"
  shows "type (sw_s (switch_init sw) axis position) = sw_type sw \<and>
         sw_type (switch_init sw) = sw_type sw \<and>
         state (sw_s (switch_init sw) axis position) = SW_OPEN \<and>
         edge (sw_s (switch_init sw) axis position) = SW_NO_EDGE \<and>
         debounce_ticks (sw_s (switch_init sw) axis position) = SW_LOCKOUT_TICKS \<and>
         debounce_timeout (sw_s (switch_init sw) axis position) = 0 \<and>
         when_open (sw_s (switch_init sw) axis position) = NO_ACTION \<and>
         when_closed (sw_s (switch_init sw) axis position) = NO_ACTION \<and>
         on_leading (sw_s (switch_init sw) axis position) = DO_FEEDHOLD \<and>
         on_trailing (sw_s (switch_init sw) axis position) = NO_ACTION \<and>
         mode (sw_s (switch_init sw) axis position) = mode (sw_s sw axis position) \<and>
         call_function NO_ACTION s m = (s, m) \<and>
         call_function DO_FEEDHOLD s m = do_feedhold s m"
  using assms
  by (simp add: sw_s_switch_init sw_type_switch_init init_switch_def SW_OPEN_def no_action_def)

text \<open>
  The theorem at the last slot of a configured table: the type becomes the global one,
  the state open, and the mode stays the configured limit mode.
\<close>

theorem switch_init_slots_witness:
  "AXIS_C < SW_PAIRS \<and> SW_MAX < SW_POSITIONS \<and>
   type (sw_s (switch_init example_sw) AXIS_C SW_MAX) = SW_NORMALLY_CLOSED \<and>
   state (sw_s (switch_init example_sw) AXIS_C SW_MAX) = SW_OPEN \<and>
   on_leading (sw_s (switch_init example_sw) AXIS_C SW_MAX) = DO_FEEDHOLD \<and>
   mode (sw_s (switch_init example_sw) AXIS_C SW_MAX) = SW_LIMIT_BIT"
proof -
  have h: "AXIS_C < SW_PAIRS" "SW_MAX < SW_POSITIONS"
    by (simp_all add: AXIS_C_def SW_PAIRS_def SW_MAX_def SW_POSITIONS_def)
  show ?thesis
    using h switch_init_slots [OF h, of example_sw]
    by (simp add: example_sw_def example_switch_def)
qed

text \<open>
  C9 as stated fails: on a table whose slots were configured as limit switches,
  \<^verbatim>\<open>switch_init\<close> leaves the first slot a limit switch, not a disabled one.
\<close>

theorem switch_init_mode_counterexample:
  "mode (sw_s (switch_init example_sw) AXIS_X SW_MIN) = SW_LIMIT_BIT \<and>
   SW_LIMIT_BIT \<noteq> SW_MODE_DISABLED"
  by (simp add: sw_s_switch_init init_switch_def example_sw_def example_switch_def
      SW_LIMIT_BIT_def SW_MODE_DISABLED_def)

subsection \<open>C10: get_switch_mode\<close>

text \<open>
  Claim C10. \<^verbatim>\<open>get_switch_mode\<close> returns 0 for every switch number, whatever the switch
  array holds.
\<close>

theorem get_switch_mode_zero:
  "get_switch_mode sw sw_num = 0 \<and>
   get_switch_mode sw sw_num = get_switch_mode sw' sw_num"
  by (simp add: get_switch_mode_def)

end
